theory Spec2Isabelle
  imports Complex_Main "HOL-Library.Sublist" "HOL-Library.Char_ord" "HOL-Library.List_Lexorder"
begin

section \<open>JavaScript numbers\<close>

text \<open>
  A JavaScript \<^verbatim>\<open>number\<close> is modelled as a real number extended with the three special
  values of IEEE arithmetic that the similarity code can produce: \<^verbatim>\<open>NaN\<close> and the two
  infinities.  Rounding, overflow and the sign of zero are not modelled: finite arithmetic
  is exact, and a zero divisor counts as \<^verbatim>\<open>+0\<close> (the only divisor of the program is a
  product of square roots, which is never \<^verbatim>\<open>-0\<close>).
\<close>

datatype jsnum = NaN | NegInf | Fin real | PosInf

fun is_negative :: "jsnum \<Rightarrow> bool" where
  "is_negative NegInf = True"
| "is_negative (Fin x) = (x < 0)"
| "is_negative _ = False"

fun is_zero :: "jsnum \<Rightarrow> bool" where
  "is_zero (Fin x) = (x = 0)"
| "is_zero _ = False"

text \<open>\<^verbatim>\<open>a + b\<close>\<close>

fun jadd :: "jsnum \<Rightarrow> jsnum \<Rightarrow> jsnum" where
  "jadd NaN _ = NaN"
| "jadd _ NaN = NaN"
| "jadd (Fin x) (Fin y) = Fin (x + y)"
| "jadd PosInf NegInf = NaN"
| "jadd NegInf PosInf = NaN"
| "jadd PosInf _ = PosInf"
| "jadd _ PosInf = PosInf"
| "jadd NegInf _ = NegInf"
| "jadd _ NegInf = NegInf"

text \<open>Unary minus, and \<^verbatim>\<open>a - b\<close>\<close>

fun jneg :: "jsnum \<Rightarrow> jsnum" where
  "jneg NaN = NaN"
| "jneg NegInf = PosInf"
| "jneg (Fin x) = Fin (- x)"
| "jneg PosInf = NegInf"

definition jsub :: "jsnum \<Rightarrow> jsnum \<Rightarrow> jsnum" where
  "jsub a b = jadd a (jneg b)"

text \<open>\<^verbatim>\<open>a * b\<close>: an infinity times zero is \<^verbatim>\<open>NaN\<close>, otherwise the signs multiply.\<close>

fun jmul :: "jsnum \<Rightarrow> jsnum \<Rightarrow> jsnum" where
  "jmul NaN _ = NaN"
| "jmul _ NaN = NaN"
| "jmul (Fin x) (Fin y) = Fin (x * y)"
| "jmul a b =
     (if is_zero a \<or> is_zero b then NaN
      else if is_negative a = is_negative b then PosInf else NegInf)"

text \<open>
  \<^verbatim>\<open>a / b\<close>: \<^verbatim>\<open>0 / 0\<close> and \<^verbatim>\<open>Infinity / Infinity\<close> are \<^verbatim>\<open>NaN\<close>; a non-zero
  number over zero is an infinity of the sign of the dividend; a finite number over an
  infinity is zero.
\<close>

fun jdiv :: "jsnum \<Rightarrow> jsnum \<Rightarrow> jsnum" where
  "jdiv NaN _ = NaN"
| "jdiv _ NaN = NaN"
| "jdiv (Fin x) (Fin y) =
     (if y \<noteq> 0 then Fin (x / y)
      else if x = 0 then NaN
      else if x < 0 then NegInf else PosInf)"
| "jdiv (Fin x) _ = Fin 0"
| "jdiv a (Fin y) = (if is_negative a = (y < 0) then PosInf else NegInf)"
| "jdiv _ _ = NaN"

text \<open>\<^verbatim>\<open>Math.sqrt\<close>\<close>

fun jsqrt :: "jsnum \<Rightarrow> jsnum" where
  "jsqrt NaN = NaN"
| "jsqrt NegInf = NaN"
| "jsqrt (Fin x) = (if x < 0 then NaN else Fin (sqrt x))"
| "jsqrt PosInf = PosInf"

text \<open>The comparisons \<^verbatim>\<open>a < b\<close> and \<^verbatim>\<open>a <= b\<close>: false as soon as an operand is \<^verbatim>\<open>NaN\<close>.\<close>

fun jless :: "jsnum \<Rightarrow> jsnum \<Rightarrow> bool" where
  "jless NaN _ = False"
| "jless _ NaN = False"
| "jless (Fin x) (Fin y) = (x < y)"
| "jless PosInf _ = False"
| "jless _ PosInf = True"
| "jless _ NegInf = False"
| "jless NegInf _ = True"

fun jle :: "jsnum \<Rightarrow> jsnum \<Rightarrow> bool" where
  "jle NaN _ = False"
| "jle _ NaN = False"
| "jle a b = (a = b \<or> jless a b)"


section \<open>Data model\<close>

text \<open>
  \<^verbatim>\<open>interface NoteEmbedding { path: string; embedding: number[]; lastModified: number }\<close>,
  the objects \<^verbatim>\<open>{ path, similarity }\<close> that the search returns, and the host's
  \<^verbatim>\<open>TFile\<close> (of which the plugin reads \<^verbatim>\<open>path\<close>, \<^verbatim>\<open>stat.mtime\<close> and \<^verbatim>\<open>extension\<close>)
  all carry a \<^verbatim>\<open>path\<close>; they are extensions of one record so that the field keeps
  its name.  The components of an embedding come out of a JSON document, hence are finite
  numbers.
\<close>

type_synonym vec = "real list"

record Pathed =
  path :: string

record NoteEmbedding = Pathed +
  embedding :: vec
  lastModified :: int

record Scored = Pathed +
  similarity :: jsnum

record TFile = Pathed +
  mtime :: int
  extension :: string

record EmbeddingCache =
  embeddings :: "NoteEmbedding list"
  version :: string

record Settings =
  openaiApiKey :: string
  useOllama :: bool
  ollamaEndpoint :: string
  ollamaModel :: string
  embeddingCache :: EmbeddingCache
  aiProvider :: string

definition DEFAULT_SETTINGS :: Settings where
  "DEFAULT_SETTINGS =
     \<lparr> openaiApiKey = '''', useOllama = False,
       ollamaEndpoint = ''http://localhost:11434'', ollamaModel = ''mistral'',
       embeddingCache = \<lparr> embeddings = [], version = ''1.0'' \<rparr>,
       aiProvider = ''openai'' \<rparr>"


section \<open>Cosine similarity\<close>

text \<open>
  \<^verbatim>\<open>b[i]\<close> as an operand of \<^verbatim>\<open>*\<close>: beyond the end of \<^verbatim>\<open>b\<close> the read gives
  \<^verbatim>\<open>undefined\<close>, which the multiplication converts to \<^verbatim>\<open>NaN\<close>.
\<close>

definition at_index :: "vec \<Rightarrow> nat \<Rightarrow> jsnum" where
  "at_index b i = (if i < length b then Fin (b ! i) else NaN)"

text \<open>\<^verbatim>\<open>a.reduce((sum, val, i) => sum + val * b[i], 0)\<close>\<close>

definition dotProduct :: "vec \<Rightarrow> vec \<Rightarrow> jsnum" where
  "dotProduct a b =
     foldl (\<lambda>sum (val, i). jadd sum (jmul (Fin val) (at_index b i))) (Fin 0)
       (zip a [0 ..< length a])"

text \<open>\<^verbatim>\<open>Math.sqrt(a.reduce((sum, val) => sum + val * val, 0))\<close>\<close>

definition magnitude :: "vec \<Rightarrow> jsnum" where
  "magnitude a = jsqrt (foldl (\<lambda>sum val. jadd sum (jmul (Fin val) (Fin val))) (Fin 0) a)"

definition cosineSimilarity :: "vec \<Rightarrow> vec \<Rightarrow> jsnum" where
  "cosineSimilarity a b = jdiv (dotProduct a b) (jmul (magnitude a) (magnitude b))"


section \<open>Related-notes search\<close>

text \<open>
  \<^verbatim>\<open>Array.prototype.sort(comparefn)\<close> is a stable sort: \<^verbatim>\<open>a\<close> stays before \<^verbatim>\<open>b\<close>
  unless \<^verbatim>\<open>comparefn(a, b) > 0\<close>, a \<^verbatim>\<open>NaN\<close> returned by the comparison counting as
  \<^verbatim>\<open>+0\<close>.  For a consistent comparison the result of a stable sort is unique, and
  insertion from the right computes it.  When the comparison is not consistent (here: as
  soon as a similarity is \<^verbatim>\<open>NaN\<close>) ECMAScript leaves the order to the implementation,
  and the model gives one of the permitted orders; what is claimed below about the order
  of a result assumes that no similarity is \<^verbatim>\<open>NaN\<close>, and what is claimed about a result
  with a \<^verbatim>\<open>NaN\<close> holds for every order.
\<close>

fun is_positive :: "jsnum \<Rightarrow> bool" where
  "is_positive PosInf = True"
| "is_positive (Fin x) = (0 < x)"
| "is_positive _ = False"

fun sort_insert :: "('a \<Rightarrow> 'a \<Rightarrow> jsnum) \<Rightarrow> 'a \<Rightarrow> 'a list \<Rightarrow> 'a list" where
  "sort_insert comparefn x [] = [x]"
| "sort_insert comparefn x (y # ys) =
     (if is_positive (comparefn x y) then y # sort_insert comparefn x ys else x # y # ys)"

fun js_sort :: "('a \<Rightarrow> 'a \<Rightarrow> jsnum) \<Rightarrow> 'a list \<Rightarrow> 'a list" where
  "js_sort comparefn [] = []"
| "js_sort comparefn (x # xs) = sort_insert comparefn x (js_sort comparefn xs)"

text \<open>\<^verbatim>\<open>(a, b) => b.similarity - a.similarity\<close>\<close>

definition by_similarity :: "Scored \<Rightarrow> Scored \<Rightarrow> jsnum" where
  "by_similarity a b = jsub (similarity b) (similarity a)"

text \<open>
  The pipeline of \<^verbatim>\<open>AIChatView.findRelatedNotes\<close> (main.ts, lines 344 to 351):
  \<^verbatim>\<open>embeddings.filter(e => e.path !== activeFile.path).map(e => ({path, similarity}))
  .sort((a, b) => b.similarity - a.similarity).slice(0, 5)\<close>.
\<close>

definition score :: "vec \<Rightarrow> NoteEmbedding \<Rightarrow> Scored" where
  "score currentEmbedding e =
     \<lparr> path = path e, similarity = cosineSimilarity currentEmbedding (embedding e) \<rparr>"

definition candidates :: "NoteEmbedding list \<Rightarrow> string \<Rightarrow> NoteEmbedding list" where
  "candidates cache activePath = filter (\<lambda>e. path e \<noteq> activePath) cache"

definition similarities :: "NoteEmbedding list \<Rightarrow> string \<Rightarrow> vec \<Rightarrow> Scored list" where
  "similarities cache activePath currentEmbedding =
     take 5 (js_sort by_similarity (map (score currentEmbedding) (candidates cache activePath)))"

text \<open>
  \<^verbatim>\<open>VectorStore.search(queryEmbedding, k)\<close> of the earlier revision of the plugin: the same
  ranking over the whole store, cut at \<^verbatim>\<open>k\<close>.  It receives no note identifier.
\<close>

definition search :: "NoteEmbedding list \<Rightarrow> vec \<Rightarrow> nat \<Rightarrow> Scored list" where
  "search store queryEmbedding k =
     take k (js_sort by_similarity (map (score queryEmbedding) store))"


section \<open>Errors, host and provider transport\<close>

text \<open>
  Every \<^verbatim>\<open>throw\<close> and every rejected promise of the plugin is a value of this type.
\<close>

datatype error =
    InvalidProvider        \<comment> \<open>\<^verbatim>\<open>new Error("Invalid AI provider")\<close>\<close>
  | FetchError string      \<comment> \<open>\<^verbatim>\<open>fetch\<close> rejected: the provider could not be reached\<close>
  | TypeError              \<comment> \<open>the response body lacks a field that the code dereferences\<close>
  | OllamaApiError string  \<comment> \<open>\<^verbatim>\<open>new Error(`Ollama API error: ${response.statusText}`)\<close>\<close>
  | ReadError              \<comment> \<open>\<^verbatim>\<open>vault.read\<close> rejected\<close>
  | SaveError              \<comment> \<open>\<^verbatim>\<open>saveData\<close> rejected\<close>
  | NoEmbedding            \<comment> \<open>\<^verbatim>\<open>new Error("Failed to generate embedding for current note")\<close>\<close>

text \<open>
  What the plugin reads of a \<^verbatim>\<open>fetch\<close> response: \<^verbatim>\<open>response.ok\<close>,
  \<^verbatim>\<open>response.statusText\<close>, and the field of \<^verbatim>\<open>await response.json()\<close> that the
  caller returns (\<^verbatim>\<open>data.choices[0].message.content\<close>, \<^verbatim>\<open>data.response\<close>,
  \<^verbatim>\<open>data.data[0].embedding\<close>, \<^verbatim>\<open>data.embedding\<close>).  \<open>body\<close> is \<open>Inl\<close> when reading
  that field throws.  A body that parses is taken to carry the field with its declared
  type (\<^verbatim>\<open>string\<close>, \<^verbatim>\<open>number[]\<close>).
\<close>

record 'a Response =
  ok :: bool
  statusText :: string
  body :: "error + 'a"

text \<open>
  The collaborators outside the plugin: the workspace (\<^verbatim>\<open>getActiveFile\<close>,
  \<^verbatim>\<open>getMarkdownFiles\<close>), the four provider endpoints reached through \<^verbatim>\<open>fetch\<close>, and
  the host's \<^verbatim>\<open>saveData\<close>.  The arguments of an endpoint are the parts of the request
  that the plugin chooses: credential or endpoint and model, then the texts.  During one
  operation the surroundings stay as they are, so an endpoint answers equal requests
  alike; from one operation to the next they may differ.
\<close>

record Env =
  getActiveFile :: "TFile option"
  getMarkdownFiles :: "TFile list"
  fetch_openai_chat :: "string \<Rightarrow> string \<Rightarrow> string \<Rightarrow> error + string Response"
  fetch_ollama_generate :: "string \<Rightarrow> string \<Rightarrow> string \<Rightarrow> error + string Response"
  fetch_openai_embeddings :: "string \<Rightarrow> string \<Rightarrow> error + vec Response"
  fetch_ollama_embeddings :: "string \<Rightarrow> string \<Rightarrow> string \<Rightarrow> error + vec Response"
  saveData :: "Settings \<Rightarrow> error + unit"

text \<open>
  The mutable state: the plugin's settings (with the embedding cache), the note contents
  of the vault by path, the texts of the \<^verbatim>\<open>Notice\<close> pop-ups shown so far and the
  \<^verbatim>\<open>console.error\<close> lines written so far, oldest first.  \<^verbatim>\<open>console.log\<close> and the
  progress text of an open notice are not recorded.
\<close>

record App =
  settings :: Settings
  vault :: "string \<rightharpoonup> string"
  notices :: "string list"
  console :: "(string \<times> error) list"

definition cache :: "App \<Rightarrow> NoteEmbedding list" where
  "cache st = embeddings (embeddingCache (settings st))"

definition set_embeddings :: "NoteEmbedding list \<Rightarrow> App \<Rightarrow> App" where
  "set_embeddings es st =
     st\<lparr>settings := (settings st)\<lparr>embeddingCache := (embeddingCache (settings st))\<lparr>embeddings := es\<rparr>\<rparr>\<rparr>"

definition Notice :: "string \<Rightarrow> App \<Rightarrow> App" where
  "Notice text st = st\<lparr>notices := notices st @ [text]\<rparr>"

definition console_error :: "string \<Rightarrow> error \<Rightarrow> App \<Rightarrow> App" where
  "console_error text e st = st\<lparr>console := console st @ [(text, e)]\<rparr>"

definition vault_read :: "App \<Rightarrow> TFile \<Rightarrow> error + string" where
  "vault_read st file = (case vault st (path file) of None \<Rightarrow> Inl ReadError | Some c \<Rightarrow> Inr c)"

definition vault_modify :: "TFile \<Rightarrow> string \<Rightarrow> App \<Rightarrow> App" where
  "vault_modify file text st = st\<lparr>vault := (vault st)(path file \<mapsto> text)\<rparr>"

definition saveSettings :: "Env \<Rightarrow> App \<Rightarrow> error + unit" where
  "saveSettings env st = saveData env (settings st)"

text \<open>
  String helpers.  The emoji of the notice texts are written as their UTF-8 bytes;
  \<^verbatim>\<open>String.prototype.trim\<close> is modelled on the ASCII white space characters.
\<close>

definition nl :: string where
  "nl = [CHR 0x0A]"

definition cross_mark :: string where
  "cross_mark = [CHR 0xE2, CHR 0x9D, CHR 0x8C]"

definition check_mark :: string where
  "check_mark = [CHR 0xE2, CHR 0x9C, CHR 0x85]"

definition thinking_face :: string where
  "thinking_face = [CHR 0xF0, CHR 0x9F, CHR 0xA4, CHR 0x94]"

definition is_space :: "char \<Rightarrow> bool" where
  "is_space c = (c \<in> set [CHR '' '', CHR 0x09, CHR 0x0A, CHR 0x0B, CHR 0x0C, CHR 0x0D])"

definition trim :: "string \<Rightarrow> string" where
  "trim s = rev (dropWhile is_space (rev (dropWhile is_space s)))"

fun join :: "string \<Rightarrow> string list \<Rightarrow> string" where
  "join sep [] = []"
| "join sep [x] = x"
| "join sep (x # y # ys) = x @ sep @ join sep (y # ys)"

text \<open>The \<^verbatim>\<open>await\<close> of a promise followed by \<^verbatim>\<open>.trim()\<close>: a rejection skips it.\<close>

definition then_trim :: "error + string \<Rightarrow> error + string" where
  "then_trim r = (case r of Inl e \<Rightarrow> Inl e | Inr text \<Rightarrow> Inr (trim text))"


section \<open>AI gateway\<close>

text \<open>
  \<^verbatim>\<open>getOpenAIEmbedding\<close>, \<^verbatim>\<open>getOllamaEmbedding\<close> and the dispatch of
  \<^verbatim>\<open>getEmbedding\<close>.  None of them inspects the text.  (An Ollama body without the field
  \<^verbatim>\<open>embedding\<close> would make \<^verbatim>\<open>getOllamaEmbedding\<close> return \<^verbatim>\<open>undefined\<close>, outside
  its declared type \<^verbatim>\<open>number[]\<close>; the model has no such value.)
\<close>

definition getOpenAIEmbedding :: "Env \<Rightarrow> Settings \<Rightarrow> string \<Rightarrow> error + vec" where
  "getOpenAIEmbedding env s text =
     (case fetch_openai_embeddings env (openaiApiKey s) text of
        Inl e \<Rightarrow> Inl e
      | Inr response \<Rightarrow> body response)"

definition getOllamaEmbedding :: "Env \<Rightarrow> Settings \<Rightarrow> string \<Rightarrow> error + vec" where
  "getOllamaEmbedding env s text =
     (case fetch_ollama_embeddings env (ollamaEndpoint s) (ollamaModel s) text of
        Inl e \<Rightarrow> Inl e
      | Inr response \<Rightarrow> body response)"

definition getEmbedding :: "Env \<Rightarrow> Settings \<Rightarrow> string \<Rightarrow> error + vec" where
  "getEmbedding env s text =
     (if aiProvider s = ''ollama'' then getOllamaEmbedding env s text
      else if aiProvider s = ''openai'' then getOpenAIEmbedding env s text
      else Inl InvalidProvider)"

text \<open>
  \<^verbatim>\<open>callOpenAI\<close>: without an API key it shows a notice and returns a fixed string;
  otherwise it posts the request and returns the trimmed content of the first choice.
\<close>

definition callOpenAI :: "Env \<Rightarrow> App \<Rightarrow> string \<Rightarrow> string \<Rightarrow> (error + string) \<times> App" where
  "callOpenAI env st inputText prompt =
     (let apiKey = openaiApiKey (settings st) in
      if apiKey = [] then
        (Inr ''Error: API key not found.'',
         Notice (cross_mark @ '' Error: OpenAI API key is missing! Enter it in settings.'') st)
      else
        (case fetch_openai_chat env apiKey prompt inputText of
           Inl e \<Rightarrow> (Inl e, st)
         | Inr response \<Rightarrow> (then_trim (body response), st)))"

text \<open>
  \<^verbatim>\<open>callOllama\<close>: a response that is not \<^verbatim>\<open>ok\<close> throws; whatever is thrown inside
  the \<^verbatim>\<open>try\<close> is logged, announced by a notice and thrown again.
\<close>

definition callOllama :: "Env \<Rightarrow> App \<Rightarrow> string \<Rightarrow> string \<Rightarrow> (error + string) \<times> App" where
  "callOllama env st inputText prompt =
     (let attempt =
        (case fetch_ollama_generate env (ollamaEndpoint (settings st)) (ollamaModel (settings st))
                (prompt @ nl @ nl @ ''Content:'' @ nl @ inputText) of
           Inl e \<Rightarrow> Inl e
         | Inr response \<Rightarrow>
             if \<not> ok response then Inl (OllamaApiError (statusText response))
             else then_trim (body response))
      in case attempt of
           Inr text \<Rightarrow> (Inr text, st)
         | Inl e \<Rightarrow>
             (Inl e,
              Notice (cross_mark @ '' Error calling Ollama. Is it running? Check console for details.'')
                (console_error ''Error calling Ollama:'' e st)))"

definition callAI :: "Env \<Rightarrow> App \<Rightarrow> string \<Rightarrow> string \<Rightarrow> (error + string) \<times> App" where
  "callAI env st inputText prompt =
     (if aiProvider (settings st) = ''ollama'' then callOllama env st inputText prompt
      else if aiProvider (settings st) = ''openai'' then callOpenAI env st inputText prompt
      else (Inl InvalidProvider, st))"

text \<open>
  \<^verbatim>\<open>callAIWithHistory\<close>: the contents of the messages, joined by an empty line, are the
  input text of one completion.
\<close>

datatype role = User | Assistant | System

record ChatMessage =
  role :: role
  content :: string

definition callAIWithHistory :: "Env \<Rightarrow> App \<Rightarrow> ChatMessage list \<Rightarrow> (error + string) \<times> App" where
  "callAIWithHistory env st messages =
     (if aiProvider (settings st) = ''ollama'' then
        callOllama env st (join (nl @ nl) (map content messages)) ''Continue the conversation naturally.''
      else if aiProvider (settings st) = ''openai'' then
        callOpenAI env st (join (nl @ nl) (map content messages)) ''Continue the conversation naturally.''
      else (Inl InvalidProvider, st))"

text \<open>
  \<^verbatim>\<open>summarizeNote\<close>: the summary returned by \<^verbatim>\<open>callAI\<close> is appended to the active
  note.  The \<^verbatim>\<open>modify\<close> event that the write raises is a separate run of
  \<open>updateNoteEmbedding\<close> below.
\<close>

definition summarizeNote :: "Env \<Rightarrow> App \<Rightarrow> App" where
  "summarizeNote env st =
     (case getActiveFile env of
        None \<Rightarrow> Notice (cross_mark @ '' No active note found! Please open a note first.'') st
      | Some activeFile \<Rightarrow>
          (let st1 = Notice (thinking_face @ '' Generating summary...'') st;
               failed = (\<lambda>e s. Notice (cross_mark @ '' Error generating summary. Check console for details.'')
                                  (console_error ''Error summarizing note:'' e s))
           in case vault_read st1 activeFile of
                Inl e \<Rightarrow> failed e st1
              | Inr noteContent \<Rightarrow>
                  (case callAI env st1 noteContent ''Summarize this note in 3 bullet points'' of
                     (Inl e, st2) \<Rightarrow> failed e st2
                   | (Inr summary, st2) \<Rightarrow>
                       Notice (check_mark @ '' Summary added to the note!'')
                         (vault_modify activeFile
                            (noteContent @ nl @ nl @ ''---'' @ nl @ ''**AI Summary:**'' @ nl @ summary) st2))))"


section \<open>Embedding cache and indexer\<close>

text \<open>\<^verbatim>\<open>Array.prototype.findIndex\<close>, with \<open>None\<close> for the result \<^verbatim>\<open>-1\<close>.\<close>

fun findIndex :: "('a \<Rightarrow> bool) \<Rightarrow> 'a list \<Rightarrow> nat option" where
  "findIndex P [] = None"
| "findIndex P (x # xs) = (if P x then Some 0 else map_option Suc (findIndex P xs))"

text \<open>
  The synchronous part of \<^verbatim>\<open>updateNoteEmbedding\<close> (main.ts, lines 724 to 739): the entry
  found by \<^verbatim>\<open>findIndex(e => e.path === file.path)\<close> is overwritten with a fresh object,
  or the fresh object is pushed when there is none.
\<close>

definition upsert :: "NoteEmbedding list \<Rightarrow> string \<Rightarrow> vec \<Rightarrow> int \<Rightarrow> NoteEmbedding list" where
  "upsert es p v t =
     (let entry = \<lparr> path = p, embedding = v, lastModified = t \<rparr> in
      case findIndex (\<lambda>e. path e = p) es of
        Some existingIndex \<Rightarrow> es[existingIndex := entry]
      | None \<Rightarrow> es @ [entry])"

text \<open>
  The first two statements of \<^verbatim>\<open>updateNoteEmbedding\<close> on their own,
  \<^verbatim>\<open>const content = await this.app.vault.read(file)\<close> and
  \<^verbatim>\<open>const embedding = await this.getEmbedding(content)\<close>: the vector, or what was thrown.
\<close>

definition embed_outcome :: "Env \<Rightarrow> App \<Rightarrow> TFile \<Rightarrow> error + vec" where
  "embed_outcome env st file =
     (case vault_read st file of
        Inl e \<Rightarrow> Inl e
      | Inr noteContent \<Rightarrow> getEmbedding env (settings st) noteContent)"

text \<open>
  \<^verbatim>\<open>updateNoteEmbedding\<close>: read the note, embed its content, write the cache, save the
  settings.  Both \<^verbatim>\<open>await\<close>s that can throw before the write leave the state as it
  was; \<^verbatim>\<open>saveSettings\<close> runs after the write.  No \<^verbatim>\<open>await\<close> separates
  \<^verbatim>\<open>findIndex\<close> from the write, so concurrent calls interleave as whole steps of this
  function, in some order.
\<close>

definition updateNoteEmbedding :: "Env \<Rightarrow> App \<Rightarrow> TFile \<Rightarrow> (error + unit) \<times> App" where
  "updateNoteEmbedding env st file =
     (case vault_read st file of
        Inl e \<Rightarrow> (Inl e, st)
      | Inr noteContent \<Rightarrow>
          (case getEmbedding env (settings st) noteContent of
             Inl e \<Rightarrow> (Inl e, st)
           | Inr vector \<Rightarrow>
               (let st' = set_embeddings (upsert (cache st) (path file) vector (mtime file)) st
                in (saveSettings env st', st'))))"

text \<open>
  \<^verbatim>\<open>updateAllEmbeddings\<close>.  The body of its loop runs each file in a \<^verbatim>\<open>try\<close> of
  its own, whose \<^verbatim>\<open>catch\<close> writes
  \<^verbatim>\<open>console.error(`Error processing ${file.path}:`, error)\<close>; the loop goes through
  \<^verbatim>\<open>getMarkdownFiles()\<close> from first to last.
\<close>

definition process_file :: "Env \<Rightarrow> App \<Rightarrow> TFile \<Rightarrow> App" where
  "process_file env st file =
     (case updateNoteEmbedding env st file of
        (Inr _, st') \<Rightarrow> st'
      | (Inl e, st') \<Rightarrow> console_error (''Error processing '' @ path file @ '':'') e st')"

definition updateAllEmbeddings :: "Env \<Rightarrow> App \<Rightarrow> App" where
  "updateAllEmbeddings env st =
     foldl (process_file env) (Notice ''Computing note embeddings...'' st) (getMarkdownFiles env)"

text \<open>
  The click handler of the ``Rebuild Cache'' button of the settings tab: empty the cache,
  save, index every note.  When the save throws, the handler stops with the cache empty.
\<close>

definition rebuildCache :: "Env \<Rightarrow> App \<Rightarrow> (error + unit) \<times> App" where
  "rebuildCache env st =
     (let st1 = Notice ''Starting to rebuild embeddings cache...'' st;
          st2 = set_embeddings [] st1
      in case saveSettings env st2 of
           Inl e \<Rightarrow> (Inl e, st2)
         | Inr _ \<Rightarrow>
             (Inr (), Notice (check_mark @ '' Embeddings cache rebuilt!'') (updateAllEmbeddings env st2)))"

text \<open>
  What happens to the cache during a session.  The operations of the plugin that write
  it, each with the surroundings it runs in: one note re-embedded (the \<^verbatim>\<open>modify\<close>
  handler, the first step of \<^verbatim>\<open>findRelatedNotes\<close>), all notes indexed
  (\<^verbatim>\<open>onload\<close>), the cache rebuilt.  Between them the vault changes: a note is
  written or deleted.
\<close>

datatype cache_op =
    UpdateNote Env TFile
  | UpdateAll Env
  | Rebuild Env
  | WriteNote TFile string
  | DeleteNote TFile

fun run_op :: "App \<Rightarrow> cache_op \<Rightarrow> App" where
  "run_op st (UpdateNote env file) = snd (updateNoteEmbedding env st file)"
| "run_op st (UpdateAll env) = updateAllEmbeddings env st"
| "run_op st (Rebuild env) = snd (rebuildCache env st)"
| "run_op st (WriteNote file text) = vault_modify file text st"
| "run_op st (DeleteNote file) = st\<lparr>vault := (vault st)(path file := None)\<rparr>"

text \<open>
  \<^verbatim>\<open>findRelatedNotes\<close> up to the ranked list \<^verbatim>\<open>similarities\<close> (main.ts, lines 331 to
  351); the explanations requested afterwards only read that list.
\<close>

definition findRelatedNotes :: "Env \<Rightarrow> App \<Rightarrow> TFile \<Rightarrow> (error + Scored list) \<times> App" where
  "findRelatedNotes env st activeFile =
     (case updateNoteEmbedding env st activeFile of
        (Inl e, st') \<Rightarrow> (Inl e, st')
      | (Inr _, st') \<Rightarrow>
          (case find (\<lambda>e. path e = path activeFile) (cache st') of
             None \<Rightarrow> (Inl NoEmbedding, st')
           | Some current \<Rightarrow>
               (Inr (similarities (cache st') (path activeFile) (embedding current)), st')))"


section \<open>Chat view\<close>

text \<open>
  Of the view, the permanent \<^verbatim>\<open>chatHistory\<close> and the messages rendered into
  \<^verbatim>\<open>chatContainer\<close> by \<^verbatim>\<open>addChatMessage\<close>.  The typing indicator is not recorded.
\<close>

record ChatView =
  chatHistory :: "ChatMessage list"
  chatContainer :: "(role \<times> string) list"

definition addChatMessage :: "role \<Rightarrow> string \<Rightarrow> ChatView \<Rightarrow> ChatView" where
  "addChatMessage r text view = view\<lparr>chatContainer := chatContainer view @ [(r, text)]\<rparr>"

definition push_history :: "role \<Rightarrow> string \<Rightarrow> ChatView \<Rightarrow> ChatView" where
  "push_history r text view =
     view\<lparr>chatHistory := chatHistory view @ [\<lparr> role = r, content = text \<rparr>]\<rparr>"

definition is_note_context :: "ChatMessage \<Rightarrow> bool" where
  "is_note_context msg = (role msg = System \<and> prefix ''Current note content:'' (content msg))"

text \<open>
  \<^verbatim>\<open>handleUserInput\<close>.  The note content is pushed before the completion is requested
  and filtered out after the reply has been stored; both the request and the filter are
  inside the \<^verbatim>\<open>try\<close>, whose \<^verbatim>\<open>catch\<close> logs the error and shows an apology.
\<close>

definition handleUserInput :: "Env \<Rightarrow> ChatView \<times> App \<Rightarrow> string \<Rightarrow> ChatView \<times> App" where
  "handleUserInput env state input =
     (let st = snd state;
          view1 = push_history User input (addChatMessage User input (fst state));
          failed = (\<lambda>e view s.
             (addChatMessage Assistant ''Sorry, there was an error processing your request.'' view,
              console_error [] e s))
      in case getActiveFile env of
           None \<Rightarrow> (addChatMessage Assistant ''Please open a note first!'' view1, st)
         | Some activeFile \<Rightarrow>
             (case vault_read st activeFile of
                Inl e \<Rightarrow> failed e view1 st
              | Inr noteContent \<Rightarrow>
                  (let view2 = push_history System (''Current note content:'' @ nl @ noteContent) view1
                   in case callAIWithHistory env st (chatHistory view2) of
                        (Inl e, st') \<Rightarrow> failed e view2 st'
                      | (Inr response, st') \<Rightarrow>
                          (let view3 = addChatMessage Assistant response
                                         (push_history Assistant response view2)
                           in (view3\<lparr>chatHistory :=
                                 filter (\<lambda>msg. role msg \<noteq> System
                                                \<or> \<not> prefix ''Current note content:'' (content msg))
                                   (chatHistory view3)\<rparr>,
                               st')))))"

text \<open>\<^verbatim>\<open>clearHistory\<close> and the history that \<^verbatim>\<open>onOpen\<close> starts with.\<close>

definition initial_history :: "ChatMessage list" where
  "initial_history =
     [\<lparr> role = System,
        content = ''You are a helpful AI assistant for note-taking and writing. You help users understand and analyze their notes.'' \<rparr>]"


section \<open>Example data\<close>

text \<open>Concrete notes, caches and surroundings on which the theorems below are run.\<close>

definition ex_note :: "string \<Rightarrow> int \<Rightarrow> TFile" where
  "ex_note p t = \<lparr> path = p, mtime = t, extension = ''md'' \<rparr>"

definition ex_entry :: "string \<Rightarrow> vec \<Rightarrow> NoteEmbedding" where
  "ex_entry p v = \<lparr> path = p, embedding = v, lastModified = 0 \<rparr>"

definition ex_ranked_cache :: "NoteEmbedding list" where
  "ex_ranked_cache =
     [ex_entry ''b.md'' [1, 0], ex_entry ''a.md'' [1, 0], ex_entry ''cur.md'' [1, 0], ex_entry ''z.md'' [0, 1]]"

definition ex_zero_cache :: "NoteEmbedding list" where
  "ex_zero_cache = [ex_entry ''cur.md'' [1, 0], ex_entry ''zero.md'' [0, 0]]"

text \<open>No provider can be reached, no note is open, saving works.\<close>

definition ex_offline :: Env where
  "ex_offline =
     \<lparr> getActiveFile = None, getMarkdownFiles = [],
       fetch_openai_chat = (\<lambda>apiKey prompt inputText. Inl (FetchError ''Failed to fetch'')),
       fetch_ollama_generate = (\<lambda>endpoint model prompt. Inl (FetchError ''Failed to fetch'')),
       fetch_openai_embeddings = (\<lambda>apiKey input. Inl (FetchError ''Failed to fetch'')),
       fetch_ollama_embeddings = (\<lambda>endpoint model prompt. Inl (FetchError ''Failed to fetch'')),
       saveData = (\<lambda>s. Inr ()) \<rparr>"

text \<open>
  A local Ollama whose embeddings endpoint answers every prompt but one: the empty vector
  for a blank prompt, \<^verbatim>\<open>[1, 0]\<close> otherwise; the request for the prompt
  \<^verbatim>\<open>broken\<close> is rejected.
\<close>

definition ex_ollama :: Env where
  "ex_ollama =
     ex_offline\<lparr> fetch_ollama_embeddings :=
       (\<lambda>endpoint model prompt.
          if prompt = ''broken'' then Inl (FetchError ''Failed to fetch'')
          else Inr \<lparr> ok = True, statusText = ''OK'',
                     body = Inr (if trim prompt = [] then [] else [1, 0]) \<rparr>) \<rparr>"

text \<open>The state after loading the default settings, over a given vault.\<close>

definition ex_fresh :: "(string \<rightharpoonup> string) \<Rightarrow> App" where
  "ex_fresh v = \<lparr> settings = DEFAULT_SETTINGS, vault = v, notices = [], console = [] \<rparr>"

definition ex_fresh_ollama :: "(string \<rightharpoonup> string) \<Rightarrow> App" where
  "ex_fresh_ollama v =
     \<lparr> settings = DEFAULT_SETTINGS\<lparr> aiProvider := ''ollama'' \<rparr>, vault = v,
       notices = [], console = [] \<rparr>"

definition ex_vault :: "string \<rightharpoonup> string" where
  "ex_vault = [''a.md'' \<mapsto> ''alpha'', ''b.md'' \<mapsto> ''broken'', ''c.md'' \<mapsto> ''gamma'',
              ''blank.md'' \<mapsto> ''  '']"

text \<open>Three notes, the second of which the provider fails to embed.\<close>

definition ex_three :: Env where
  "ex_three =
     ex_ollama\<lparr> getMarkdownFiles := [ex_note ''a.md'' 1, ex_note ''b.md'' 2, ex_note ''c.md'' 3] \<rparr>"

text \<open>A note is open, and no provider can be reached.\<close>

definition ex_chat_env :: Env where
  "ex_chat_env = ex_offline\<lparr> getActiveFile := Some (ex_note ''a.md'' 1) \<rparr>"

text \<open>
  A note embedded, edited and embedded again, the cache rebuilt over two notes, one of
  them embedded once more.
\<close>

definition ex_session :: "cache_op list" where
  "ex_session =
     [UpdateNote ex_ollama (ex_note ''a.md'' 1),
      WriteNote (ex_note ''a.md'' 2) ''alpha and more'',
      UpdateNote ex_ollama (ex_note ''a.md'' 2),
      Rebuild (ex_ollama\<lparr> getMarkdownFiles := [ex_note ''a.md'' 2, ex_note ''c.md'' 3] \<rparr>),
      UpdateNote ex_ollama (ex_note ''c.md'' 4)]"


section \<open>The sort is a stable sort\<close>

lemma set_sort_insert: "set (sort_insert c x ys) = insert x (set ys)"
  by (induction ys) auto

lemma length_sort_insert: "length (sort_insert c x ys) = Suc (length ys)"
  by (induction ys) auto

lemma set_js_sort: "set (js_sort c xs) = set xs"
  by (induction xs) (auto simp: set_sort_insert)

lemma length_js_sort: "length (js_sort c xs) = length xs"
  by (induction xs) (auto simp: length_sort_insert)

lemma filter_sort_insert:
  assumes "\<And>y. P x \<Longrightarrow> P y \<Longrightarrow> \<not> is_positive (c x y)"
  shows "filter P (sort_insert c x ys) = (if P x then x # filter P ys else filter P ys)"
  using assms by (induction ys) auto

lemma filter_js_sort:
  assumes "\<And>x y. P x \<Longrightarrow> P y \<Longrightarrow> \<not> is_positive (c x y)"
  shows "filter P (js_sort c xs) = filter P xs"
  using assms by (induction xs) (simp_all add: filter_sort_insert)

lemma jsub_self_not_positive: "\<not> is_positive (jsub v v)"
  by (cases v) (simp_all add: jsub_def)

lemma ties_keep_order:
  "filter (\<lambda>r. similarity r = s) (js_sort by_similarity xs) = filter (\<lambda>r. similarity r = s) xs"
  by (rule filter_js_sort) (simp add: by_similarity_def jsub_self_not_positive)

lemma prefix_filter_take: "prefix (filter P (take n xs)) (filter P xs)"
proof -
  have "filter P xs = filter P (take n xs) @ filter P (drop n xs)"
    by (metis append_take_drop_id filter_append)
  then show ?thesis by (simp add: prefix_def)
qed

lemma positive_jsub: "a \<noteq> NaN \<Longrightarrow> b \<noteq> NaN \<Longrightarrow> is_positive (jsub b a) = jless a b"
  by (cases a; cases b) (simp_all add: jsub_def)

lemma jle_total: "a \<noteq> NaN \<Longrightarrow> b \<noteq> NaN \<Longrightarrow> \<not> jless a b \<Longrightarrow> jle b a"
  by (cases a; cases b) auto

lemma jless_jle: "jless a b \<Longrightarrow> jle a b"
  by (cases a; cases b) auto

lemma jle_trans: "jle a b \<Longrightarrow> jle b c \<Longrightarrow> jle a c"
  by (cases a; cases b; cases c) auto

lemma sorted_sort_insert:
  assumes "similarity x \<noteq> NaN" "\<forall>y\<in>set ys. similarity y \<noteq> NaN"
    and "sorted_wrt (\<lambda>a b. jle (similarity b) (similarity a)) ys"
  shows "sorted_wrt (\<lambda>a b. jle (similarity b) (similarity a)) (sort_insert by_similarity x ys)"
  using assms
proof (induction ys)
  case Nil
  then show ?case by simp
next
  case (Cons y ys)
  show ?case
  proof (cases "is_positive (by_similarity x y)")
    case True
    then have "jless (similarity x) (similarity y)"
      using Cons.prems by (simp add: by_similarity_def positive_jsub)
    then have "jle (similarity x) (similarity y)" by (rule jless_jle)
    with True Cons show ?thesis
      by (auto simp: set_sort_insert)
  next
    case False
    then have "\<not> jless (similarity x) (similarity y)"
      using Cons.prems by (simp add: by_similarity_def positive_jsub)
    then have xy: "jle (similarity y) (similarity x)"
      using Cons.prems by (simp add: jle_total)
    have "\<forall>z\<in>set ys. jle (similarity z) (similarity x)"
      using Cons.prems(3) xy by (auto intro: jle_trans)
    with False xy Cons.prems(3) show ?thesis by simp
  qed
qed

lemma sorted_js_sort:
  "\<forall>x\<in>set xs. similarity x \<noteq> NaN \<Longrightarrow>
   sorted_wrt (\<lambda>a b. jle (similarity b) (similarity a)) (js_sort by_similarity xs)"
  by (induction xs) (simp_all add: sorted_sort_insert set_js_sort)

lemma sorted_wrt_take_local: "sorted_wrt R xs \<Longrightarrow> sorted_wrt R (take n xs)"
  by (metis append_take_drop_id sorted_wrt_append)


section \<open>Cosine similarity of a zero vector\<close>

lemma sum_squares_fold:
  "foldl (\<lambda>sum val. jadd sum (jmul (Fin val) (Fin val))) (Fin s) a = Fin (s + (\<Sum>x\<leftarrow>a. x * x))"
  by (induction a arbitrary: s) (simp_all add: add.assoc)

lemma sum_squares_nonneg: "0 \<le> (\<Sum>x\<leftarrow>(a::real list). x * x)"
  by (induction a) simp_all

lemma magnitude_finite: "magnitude a = Fin (sqrt (\<Sum>x\<leftarrow>a. x * x))"
  using sum_squares_nonneg [of a]
  by (simp add: magnitude_def sum_squares_fold [of 0 a, simplified])

lemma sum_squares_zero: "(\<Sum>x\<leftarrow>(a::real list). x * x) = 0 \<longleftrightarrow> (\<forall>x\<in>set a. x = 0)"
proof (induction a)
  case Nil
  then show ?case by simp
next
  case (Cons x a)
  have "0 \<le> x * x" by simp
  with sum_squares_nonneg [of a] have "x * x + (\<Sum>y\<leftarrow>a. y * y) = 0 \<longleftrightarrow> x * x = 0 \<and> (\<Sum>y\<leftarrow>a. y * y) = 0"
    by (simp add: add_nonneg_eq_0_iff)
  with Cons show ?case by simp
qed

lemma magnitude_zero: "magnitude a = Fin 0 \<longleftrightarrow> (\<forall>x\<in>set a. x = 0)"
  by (simp add: magnitude_finite sum_squares_zero)

lemma dot_fold_degenerate:
  assumes "(\<forall>x\<in>set a. x = 0) \<or> (\<forall>y\<in>set b. y = 0)" and "acc = Fin 0 \<or> acc = NaN"
  shows "foldl (\<lambda>sum (val, i). jadd sum (jmul (Fin val) (at_index b i))) acc
           (zip a [n ..< n + length a]) \<in> {Fin 0, NaN}"
  using assms
proof (induction a arbitrary: n acc)
  case Nil
  then show ?case by auto
next
  case (Cons x a)
  have "[n ..< n + Suc (length a)] = n # [Suc n ..< n + Suc (length a)]"
    by (rule upt_conv_Cons) simp
  then have upt: "[n ..< n + length (x # a)] = n # [Suc n ..< Suc n + length a]"
    by simp
  have step: "jadd acc (jmul (Fin x) (at_index b n)) = Fin 0 \<or> jadd acc (jmul (Fin x) (at_index b n)) = NaN"
    using Cons.prems by (auto simp: at_index_def)
  have "(\<forall>x\<in>set a. x = 0) \<or> (\<forall>y\<in>set b. y = 0)" using Cons.prems(1) by auto
  from Cons.IH [OF this step, of "Suc n"] show ?case
    by (simp only: upt zip_Cons_Cons foldl_Cons prod.case)
qed

lemma dotProduct_degenerate:
  "(\<forall>x\<in>set a. x = 0) \<or> (\<forall>y\<in>set b. y = 0) \<Longrightarrow> dotProduct a b = Fin 0 \<or> dotProduct a b = NaN"
  using dot_fold_degenerate [of a b "Fin 0" 0] by (simp add: dotProduct_def)

lemma cosineSimilarity_zero_norm:
  assumes "magnitude a = Fin 0 \<or> magnitude b = Fin 0"
  shows "cosineSimilarity a b = NaN"
proof -
  have d: "dotProduct a b = Fin 0 \<or> dotProduct a b = NaN"
    using assms by (intro dotProduct_degenerate) (simp add: magnitude_zero)
  have m: "jmul (magnitude a) (magnitude b) = Fin 0"
    using assms by (auto simp: magnitude_finite)
  show ?thesis using d by (auto simp: cosineSimilarity_def m)
qed

text \<open>The empty vector, which a provider may return for a blank text, has norm 0.\<close>

lemma cosineSimilarity_empty: "cosineSimilarity q [] = NaN"
  by (rule cosineSimilarity_zero_norm) (simp add: magnitude_def)

lemma path_score: "path (score q e) = path e"
  by (simp add: score_def)

lemma set_similarities_subset:
  "set (similarities es p q) \<subseteq> score q ` set (candidates es p)"
  unfolding similarities_def
  using set_take_subset [of 5 "js_sort by_similarity (map (score q) (candidates es p))"]
  by (simp add: set_js_sort)

lemma similarities_other_path: "r \<in> set (similarities es p q) \<Longrightarrow> path r \<noteq> p"
proof -
  assume "r \<in> set (similarities es p q)"
  with set_similarities_subset obtain e where "e \<in> set (candidates es p)" and "r = score q e"
    by blast
  then show "path r \<noteq> p" by (simp add: candidates_def path_score)
qed

text \<open>
  What \<^verbatim>\<open>findRelatedNotes\<close> hands to its explanation loop is that ranked list, for the
  vector just cached for the active note.
\<close>

lemma findRelatedNotes_result:
  assumes "findRelatedNotes env st activeFile = (Inr res, st')"
  shows "\<exists>current. find (\<lambda>e. path e = path activeFile) (cache st') = Some current
           \<and> res = similarities (cache st') (path activeFile) (embedding current)"
  using assms by (auto simp: findRelatedNotes_def split: prod.splits sum.splits option.splits)

lemma findRelatedNotes_excludes_self:
  assumes "findRelatedNotes env st activeFile = (Inr res, st')"
  shows "path activeFile \<notin> path ` set res"
proof
  assume "path activeFile \<in> path ` set res"
  then obtain r where r: "r \<in> set res" and same: "path r = path activeFile"
    by auto
  from findRelatedNotes_result [OF assms] obtain current :: NoteEmbedding
    where "res = similarities (cache st') (path activeFile) (embedding current)"
    by blast
  with r have "path r \<noteq> path activeFile"
    by (simp add: similarities_other_path)
  with same show False by simp
qed

text \<open>
  \<^verbatim>\<open>VectorStore.search\<close> of the earlier revision ranks the same way over the whole store:
  it is given no note to leave out.
\<close>

lemma search_length: "length (search store q k) = min k (length store)"
  by (simp add: search_def length_js_sort min.commute)

lemma search_whole_store: "length store \<le> k \<Longrightarrow> set (search store q k) = score q ` set store"
  by (simp add: search_def length_js_sort set_js_sort)

lemma search_ranking:
  assumes "\<forall>e\<in>set store. cosineSimilarity q (embedding e) \<noteq> NaN"
  shows "sorted_wrt (\<lambda>a b. jle (similarity b) (similarity a)) (search store q k)"
proof -
  from assms have "\<forall>x\<in>set (map (score q) store). similarity x \<noteq> NaN"
    by (simp add: score_def)
  then show ?thesis
    unfolding search_def by (intro sorted_wrt_take_local sorted_js_sort)
qed

lemma similarities_all_when_few:
  "length (candidates es p) \<le> 5 \<Longrightarrow>
   set (similarities es p q) = score q ` set (candidates es p)"
  by (simp add: similarities_def length_js_sort set_js_sort)


section \<open>The cache write\<close>

lemma upsert_Nil: "upsert [] p v t = [\<lparr> path = p, embedding = v, lastModified = t \<rparr>]"
  by (simp add: upsert_def)

lemma upsert_Cons:
  "upsert (x # xs) p v t =
     (if path x = p then \<lparr> path = p, embedding = v, lastModified = t \<rparr> # xs
      else x # upsert xs p v t)"
  by (cases "findIndex (\<lambda>e. path e = p) xs") (simp_all add: upsert_def Let_def)

lemma find_upsert_same:
  "find (\<lambda>e. path e = p) (upsert es p v t) = Some \<lparr> path = p, embedding = v, lastModified = t \<rparr>"
  by (induction es) (simp_all add: upsert_Nil upsert_Cons)

lemma find_upsert_other:
  "q \<noteq> p \<Longrightarrow> find (\<lambda>e. path e = q) (upsert es p v t) = find (\<lambda>e. path e = q) es"
  by (induction es) (simp_all add: upsert_Nil upsert_Cons)

lemma upsert_upsert: "upsert (upsert es p v1 t1) p v2 t2 = upsert es p v2 t2"
  by (induction es) (simp_all add: upsert_Nil upsert_Cons)

lemma filter_upsert:
  "filter (\<lambda>e. path e \<noteq> p) (upsert es p v t) = filter (\<lambda>e. path e \<noteq> p) es"
  by (induction es) (simp_all add: upsert_Nil upsert_Cons)

lemma paths_upsert:
  "map path (upsert es p v t) = (if p \<in> set (map path es) then map path es else map path es @ [p])"
  by (induction es) (auto simp: upsert_Nil upsert_Cons)

lemma distinct_upsert: "distinct (map path es) \<Longrightarrow> distinct (map path (upsert es p v t))"
  by (simp add: paths_upsert)

lemma length_upsert:
  "length (upsert es p v t) = (if p \<in> path ` set es then length es else Suc (length es))"
  using arg_cong [OF paths_upsert [of es p v t], of length] by simp

subsection \<open>State updates\<close>

lemma cache_set_embeddings [simp]: "cache (set_embeddings es st) = es"
  by (simp add: cache_def set_embeddings_def)

lemma set_embeddings_fields [simp]:
  "vault (set_embeddings es st) = vault st"
  "notices (set_embeddings es st) = notices st"
  "console (set_embeddings es st) = console st"
  "aiProvider (settings (set_embeddings es st)) = aiProvider (settings st)"
  "openaiApiKey (settings (set_embeddings es st)) = openaiApiKey (settings st)"
  "ollamaEndpoint (settings (set_embeddings es st)) = ollamaEndpoint (settings st)"
  "ollamaModel (settings (set_embeddings es st)) = ollamaModel (settings st)"
  by (simp_all add: set_embeddings_def)

lemma set_embeddings_cache_id [simp]: "set_embeddings (cache st) st = st"
  by (simp add: set_embeddings_def cache_def)

lemma set_embeddings_twice [simp]: "set_embeddings es (set_embeddings es' st) = set_embeddings es st"
  by (simp add: set_embeddings_def)

lemma getEmbedding_set_embeddings [simp]:
  "getEmbedding env (settings (set_embeddings es st)) text = getEmbedding env (settings st) text"
  by (simp add: getEmbedding_def getOllamaEmbedding_def getOpenAIEmbedding_def)

lemma vault_read_set_embeddings [simp]:
  "vault_read (set_embeddings es st) file = vault_read st file"
  by (simp add: vault_read_def)

lemma console_error_fields [simp]:
  "cache (console_error m e st) = cache st"
  "vault (console_error m e st) = vault st"
  "settings (console_error m e st) = settings st"
  "console (console_error m e st) = console st @ [(m, e)]"
  "notices (console_error m e st) = notices st"
  by (simp_all add: console_error_def cache_def)

lemma vault_update_cache [simp]: "cache (st\<lparr>vault := v\<rparr>) = cache st"
  by (simp add: cache_def)

lemma vault_modify_cache [simp]: "cache (vault_modify file text st) = cache st"
  by (simp add: vault_modify_def)

lemma Notice_fields [simp]:
  "cache (Notice m st) = cache st"
  "vault (Notice m st) = vault st"
  "settings (Notice m st) = settings st"
  "console (Notice m st) = console st"
  "notices (Notice m st) = notices st @ [m]"
  by (simp_all add: Notice_def cache_def)

lemma vault_read_cong: "vault st' = vault st \<Longrightarrow> vault_read st' file = vault_read st file"
  by (simp add: vault_read_def)

lemma updateNoteEmbedding_failed:
  "embed_outcome env st file = Inl e \<Longrightarrow> updateNoteEmbedding env st file = (Inl e, st)"
  by (auto simp: embed_outcome_def updateNoteEmbedding_def split: sum.splits)

lemma updateNoteEmbedding_embedded:
  "embed_outcome env st file = Inr v \<Longrightarrow>
   snd (updateNoteEmbedding env st file) = set_embeddings (upsert (cache st) (path file) v (mtime file)) st"
  by (auto simp: embed_outcome_def updateNoteEmbedding_def Let_def split: sum.splits)

lemma updateNoteEmbedding_shape:
  "\<exists>es. snd (updateNoteEmbedding env st file) = set_embeddings es st \<and>
        (es = cache st \<or> (\<exists>v. es = upsert (cache st) (path file) v (mtime file)))"
proof (cases "embed_outcome env st file")
  case (Inl e)
  then show ?thesis using updateNoteEmbedding_failed [OF Inl]
    by (intro exI [of _ "cache st"]) simp
next
  case (Inr v)
  then show ?thesis using updateNoteEmbedding_embedded [OF Inr] by blast
qed


section \<open>Indexing all notes\<close>

lemma embed_outcome_cong:
  "vault st' = vault st \<Longrightarrow> (\<And>text. getEmbedding env (settings st') text = getEmbedding env (settings st) text)
   \<Longrightarrow> embed_outcome env st' file = embed_outcome env st file"
  by (simp add: embed_outcome_def vault_read_def split: option.splits)

lemma process_file_failed:
  "embed_outcome env st file = Inl e \<Longrightarrow>
   process_file env st file = console_error (''Error processing '' @ path file @ '':'') e st"
  by (simp add: process_file_def updateNoteEmbedding_failed)

lemma process_file_cache:
  "cache (process_file env st file) = cache (snd (updateNoteEmbedding env st file))"
  by (simp add: process_file_def split: prod.splits sum.splits)

lemma process_file_vault: "vault (process_file env st file) = vault st"
  using updateNoteEmbedding_shape [of env st "file"]
  by (auto simp: process_file_def split: prod.splits sum.splits)

lemma process_file_getEmbedding:
  "getEmbedding env' (settings (process_file env st file)) text = getEmbedding env' (settings st) text"
  using updateNoteEmbedding_shape [of env st "file"]
  by (auto simp: process_file_def split: prod.splits sum.splits)

lemma process_file_console: "set (console st) \<subseteq> set (console (process_file env st file))"
  using updateNoteEmbedding_shape [of env st "file"]
  by (auto simp: process_file_def split: prod.splits sum.splits)

lemma process_file_outcome:
  "embed_outcome env' (process_file env st file) f = embed_outcome env' st f"
  by (rule embed_outcome_cong) (simp_all add: process_file_vault process_file_getEmbedding)

lemma process_file_embedded:
  "embed_outcome env st file = Inr v \<Longrightarrow>
   cache (process_file env st file) = upsert (cache st) (path file) v (mtime file)"
  by (simp add: process_file_cache updateNoteEmbedding_embedded)

lemma process_file_cache_cases:
  "cache (process_file env st file) = cache st \<or>
   (\<exists>v. cache (process_file env st file) = upsert (cache st) (path file) v (mtime file))"
  using updateNoteEmbedding_shape [of env st "file"] by (auto simp: process_file_cache)

lemma process_file_other:
  "path file \<noteq> q \<Longrightarrow>
   find (\<lambda>e. path e = q) (cache (process_file env st file)) = find (\<lambda>e. path e = q) (cache st)"
  using process_file_cache_cases [of env st "file"] by (auto simp: find_upsert_other)

lemma process_file_distinct:
  "distinct (map path (cache st)) \<Longrightarrow> distinct (map path (cache (process_file env st file)))"
  using process_file_cache_cases [of env st "file"] by (auto simp: distinct_upsert)

subsection \<open>The loop over all notes\<close>

lemma loop_console: "set (console st) \<subseteq> set (console (foldl (process_file env) st files))"
proof (induction files arbitrary: st)
  case Nil
  then show ?case by simp
next
  case (Cons f files)
  show ?case using process_file_console [of st env f] Cons [of "process_file env st f"] by auto
qed

lemma loop_other:
  "q \<notin> path ` set files \<Longrightarrow>
   find (\<lambda>e. path e = q) (cache (foldl (process_file env) st files)) = find (\<lambda>e. path e = q) (cache st)"
  by (induction files arbitrary: st) (auto simp: process_file_other)

lemma loop_distinct:
  "distinct (map path (cache st)) \<Longrightarrow> distinct (map path (cache (foldl (process_file env) st files)))"
  by (induction files arbitrary: st) (simp_all add: process_file_distinct)

lemma loop_isolates:
  assumes "distinct (map path files)" and "file \<in> set files"
  shows "case embed_outcome env st file of
           Inl e \<Rightarrow>
             (''Error processing '' @ path file @ '':'', e) \<in> set (console (foldl (process_file env) st files))
             \<and> find (\<lambda>e. path e = path file) (cache (foldl (process_file env) st files))
                 = find (\<lambda>e. path e = path file) (cache st)
         | Inr v \<Rightarrow>
             find (\<lambda>e. path e = path file) (cache (foldl (process_file env) st files))
               = Some \<lparr> path = path file, embedding = v, lastModified = mtime file \<rparr>"
  using assms
proof (induction files arbitrary: st)
  case Nil
  then show ?case by simp
next
  case (Cons g files)
  let ?st1 = "process_file env st g"
  let ?final = "foldl (process_file env) ?st1 files"
  show ?case
  proof (cases "file = g")
    case True
    from Cons.prems(1) True have rest: "path file \<notin> path ` set files" by auto
    have keep: "find (\<lambda>e. path e = path file) (cache ?final) = find (\<lambda>e. path e = path file) (cache ?st1)"
      using rest by (rule loop_other)
    show ?thesis
    proof (cases "embed_outcome env st file")
      case (Inl e)
      then have st1: "?st1 = console_error (''Error processing '' @ path file @ '':'') e st"
        using True by (simp add: process_file_failed)
      have "(''Error processing '' @ path file @ '':'', e) \<in> set (console ?st1)"
        by (simp add: st1)
      then have "(''Error processing '' @ path file @ '':'', e) \<in> set (console ?final)"
        using loop_console [of ?st1 env files] by blast
      moreover have "find (\<lambda>e. path e = path file) (cache ?st1) = find (\<lambda>e. path e = path file) (cache st)"
        by (simp add: st1)
      ultimately show ?thesis using Inl keep by simp
    next
      case (Inr v)
      then have "cache ?st1 = upsert (cache st) (path file) v (mtime file)"
        using True by (simp add: process_file_embedded)
      then show ?thesis using Inr keep by (simp add: find_upsert_same)
    qed
  next
    case False
    with Cons.prems have mem: "file \<in> set files" and dist: "distinct (map path files)"
      and diff: "path g \<noteq> path file" by auto
    have IH: "case embed_outcome env ?st1 file of
           Inl e \<Rightarrow>
             (''Error processing '' @ path file @ '':'', e) \<in> set (console ?final)
             \<and> find (\<lambda>e. path e = path file) (cache ?final) = find (\<lambda>e. path e = path file) (cache ?st1)
         | Inr v \<Rightarrow>
             find (\<lambda>e. path e = path file) (cache ?final)
               = Some \<lparr> path = path file, embedding = v, lastModified = mtime file \<rparr>"
      using Cons.IH [OF dist mem] .
    have same: "embed_outcome env ?st1 file = embed_outcome env st file"
      by (rule process_file_outcome)
    have other: "find (\<lambda>e. path e = path file) (cache ?st1) = find (\<lambda>e. path e = path file) (cache st)"
      using diff by (rule process_file_other)
    from IH show ?thesis unfolding same other foldl_Cons .
  qed
qed


section \<open>Related-notes search: the claims\<close>

lemma cos_same: "cosineSimilarity [1, 0] [1, 0] = Fin 1"
  by (simp add: cosineSimilarity_def dotProduct_def magnitude_def at_index_def upt_rec)

lemma cos_orthogonal: "cosineSimilarity [1, 0] [0, 1] = Fin 0"
  by (simp add: cosineSimilarity_def dotProduct_def magnitude_def at_index_def upt_rec)

lemma ranked_candidates:
  "candidates ex_ranked_cache ''cur.md'' =
     [ex_entry ''b.md'' [1, 0], ex_entry ''a.md'' [1, 0], ex_entry ''z.md'' [0, 1]]"
  by (simp add: candidates_def ex_ranked_cache_def ex_entry_def)

lemma ranked_result:
  "similarities ex_ranked_cache ''cur.md'' [1, 0] =
     [\<lparr> path = ''b.md'', similarity = Fin 1 \<rparr>, \<lparr> path = ''a.md'', similarity = Fin 1 \<rparr>,
      \<lparr> path = ''z.md'', similarity = Fin 0 \<rparr>]"
  by (simp add: similarities_def ranked_candidates score_def ex_entry_def cos_same cos_orthogonal
        by_similarity_def jsub_def)

text \<open>
  Claim C1, as the code has it.  The list computed by \<^verbatim>\<open>findRelatedNotes\<close> holds at most
  five entries, exactly \<open>min 5 n\<close> of the \<open>n\<close> cache entries other than the active note:
  no similarity threshold removes an entry.  When no similarity is \<^verbatim>\<open>NaN\<close> the list is
  in descending order of similarity, and entries of equal similarity stand in the order
  of the cache (the sort is stable; the path is not compared).
\<close>

theorem related_notes_ranking:
  "((\<forall>e\<in>set (candidates es p). cosineSimilarity q (embedding e) \<noteq> NaN) \<longrightarrow>
      sorted_wrt (\<lambda>a b. jle (similarity b) (similarity a)) (similarities es p q)
      \<and> (\<forall>s. prefix (filter (\<lambda>r. similarity r = s) (similarities es p q))
                    (filter (\<lambda>r. similarity r = s) (map (score q) (candidates es p)))))
   \<and> set (similarities es p q) \<subseteq> score q ` set (candidates es p)
   \<and> length (similarities es p q) = min 5 (length (candidates es p))"
proof (intro conjI impI allI)
  assume "\<forall>e\<in>set (candidates es p). cosineSimilarity q (embedding e) \<noteq> NaN"
  then have "\<forall>x\<in>set (map (score q) (candidates es p)). similarity x \<noteq> NaN"
    by (simp add: score_def)
  then show "sorted_wrt (\<lambda>a b. jle (similarity b) (similarity a)) (similarities es p q)"
    unfolding similarities_def by (intro sorted_wrt_take_local sorted_js_sort)
next
  fix s
  show "prefix (filter (\<lambda>r. similarity r = s) (similarities es p q))
          (filter (\<lambda>r. similarity r = s) (map (score q) (candidates es p)))"
    unfolding similarities_def
    using prefix_filter_take [of "\<lambda>r. similarity r = s" 5 "js_sort by_similarity (map (score q) (candidates es p))"]
    by (simp only: ties_keep_order)
next
  show "set (similarities es p q) \<subseteq> score q ` set (candidates es p)"
    by (rule set_similarities_subset)
next
  show "length (similarities es p q) = min 5 (length (candidates es p))"
    by (simp add: similarities_def length_js_sort min.commute)
qed

text \<open>The theorem on a cache of four notes, no similarity of which is \<^verbatim>\<open>NaN\<close>.\<close>

theorem related_notes_ranking_witness:
  "sorted_wrt (\<lambda>a b. jle (similarity b) (similarity a)) (similarities ex_ranked_cache ''cur.md'' [1, 0])
   \<and> prefix (filter (\<lambda>r. similarity r = Fin 1) (similarities ex_ranked_cache ''cur.md'' [1, 0]))
        [\<lparr> path = ''b.md'', similarity = Fin 1 \<rparr>, \<lparr> path = ''a.md'', similarity = Fin 1 \<rparr>]
   \<and> length (similarities ex_ranked_cache ''cur.md'' [1, 0]) = 3"
proof -
  have clean: "\<forall>e\<in>set (candidates ex_ranked_cache ''cur.md''). cosineSimilarity [1, 0] (embedding e) \<noteq> NaN"
    by (simp add: ranked_candidates ex_entry_def cos_same cos_orthogonal)
  note ranking = related_notes_ranking [of ex_ranked_cache "''cur.md''" "[1, 0]"]
  from ranking clean
  have ordered: "sorted_wrt (\<lambda>a b. jle (similarity b) (similarity a)) (similarities ex_ranked_cache ''cur.md'' [1, 0])"
    and "\<forall>s. prefix (filter (\<lambda>r. similarity r = s) (similarities ex_ranked_cache ''cur.md'' [1, 0]))
               (filter (\<lambda>r. similarity r = s) (map (score [1, 0]) (candidates ex_ranked_cache ''cur.md'')))"
    by blast+
  then have "prefix (filter (\<lambda>r. similarity r = Fin 1) (similarities ex_ranked_cache ''cur.md'' [1, 0]))
               (filter (\<lambda>r. similarity r = Fin 1) (map (score [1, 0]) (candidates ex_ranked_cache ''cur.md'')))"
    by blast
  then have ties: "prefix (filter (\<lambda>r. similarity r = Fin 1) (similarities ex_ranked_cache ''cur.md'' [1, 0]))
        [\<lparr> path = ''b.md'', similarity = Fin 1 \<rparr>, \<lparr> path = ''a.md'', similarity = Fin 1 \<rparr>]"
    by (simp add: ranked_candidates score_def ex_entry_def cos_same cos_orthogonal)
  from ranking have "length (similarities ex_ranked_cache ''cur.md'' [1, 0]) = 3"
    by (simp add: ranked_candidates)
  with ordered ties show ?thesis by simp
qed

text \<open>
  Claim C1 as stated fails on that cache: \<^verbatim>\<open>b.md\<close> and \<^verbatim>\<open>a.md\<close> tie at similarity 1
  and come out in cache order, not by ascending path, and \<^verbatim>\<open>z.md\<close> is returned with
  similarity 0, which no threshold of 0 (or 0.5) lets through.
\<close>

theorem related_notes_ranking_counterexample:
  "similarities ex_ranked_cache ''cur.md'' [1, 0] =
     [\<lparr> path = ''b.md'', similarity = Fin 1 \<rparr>, \<lparr> path = ''a.md'', similarity = Fin 1 \<rparr>,
      \<lparr> path = ''z.md'', similarity = Fin 0 \<rparr>]
   \<and> \<not> sorted_wrt (\<lambda>a b. jless (similarity b) (similarity a)
                          \<or> similarity a = similarity b \<and> path a < path b)
          (similarities ex_ranked_cache ''cur.md'' [1, 0])
   \<and> jle (similarity (last (similarities ex_ranked_cache ''cur.md'' [1, 0]))) (Fin 0)"
  by (simp add: ranked_result)

text \<open>
  Claim C2.  For every cache and every active note, no entry of the list computed by
  \<^verbatim>\<open>findRelatedNotes\<close> carries the path of the active note.
\<close>

theorem related_notes_exclude_self:
  "activePath \<notin> path ` set (similarities es activePath currentEmbedding)"
  using similarities_other_path [of _ es activePath currentEmbedding] by blast

text \<open>The active note is in the cache and not in the result.\<close>

theorem related_notes_exclude_self_witness:
  "''cur.md'' \<in> path ` set ex_ranked_cache
   \<and> ''cur.md'' \<notin> path ` set (similarities ex_ranked_cache ''cur.md'' [1, 0])"
  using related_notes_exclude_self [of "''cur.md''" ex_ranked_cache "[1, 0]"]
  by (simp add: ex_ranked_cache_def ex_entry_def)

text \<open>
  Claim C3, as the code has it.  When the query vector or the vector of a cache entry has
  norm 0, \<^verbatim>\<open>cosineSimilarity\<close> returns \<^verbatim>\<open>NaN\<close>, and the entry is not removed: with at
  most five other notes in the cache it is in the result, with similarity \<^verbatim>\<open>NaN\<close>.
\<close>

theorem zero_vector_gives_NaN:
  assumes "magnitude q = Fin 0 \<or> magnitude (embedding e) = Fin 0"
    and "e \<in> set es" and "path e \<noteq> p" and "length (candidates es p) \<le> 5"
  shows "cosineSimilarity q (embedding e) = NaN
       \<and> \<lparr> path = path e, similarity = NaN \<rparr> \<in> set (similarities es p q)"
proof -
  have n: "cosineSimilarity q (embedding e) = NaN"
    using assms(1) by (rule cosineSimilarity_zero_norm)
  have "e \<in> set (candidates es p)" using assms(2,3) by (simp add: candidates_def)
  then have "score q e \<in> set (similarities es p q)"
    using assms(4) by (simp add: similarities_all_when_few)
  with n show ?thesis by (simp add: score_def)
qed

text \<open>A query vector of norm 0 against the cache of four notes.\<close>

theorem zero_vector_gives_NaN_witness:
  "cosineSimilarity [0, 0] [0, 1] = NaN
   \<and> \<lparr> path = ''z.md'', similarity = NaN \<rparr> \<in> set (similarities ex_ranked_cache ''cur.md'' [0, 0])"
proof -
  have "magnitude [0, 0] = Fin 0 \<or> magnitude (embedding (ex_entry ''z.md'' [0, 1])) = Fin 0"
    by (simp add: magnitude_def)
  moreover have "ex_entry ''z.md'' [0, 1] \<in> set ex_ranked_cache"
    by (simp add: ex_ranked_cache_def)
  moreover have "path (ex_entry ''z.md'' [0, 1]) \<noteq> ''cur.md''"
    by (simp add: ex_entry_def)
  moreover have "length (candidates ex_ranked_cache ''cur.md'') \<le> 5"
    by (simp add: ranked_candidates)
  ultimately show ?thesis
    using zero_vector_gives_NaN [of "[0, 0]" "ex_entry ''z.md'' [0, 1]" ex_ranked_cache "''cur.md''"]
    by (simp add: ex_entry_def)
qed

text \<open>
  Claim C3 as stated fails: the one candidate has the zero vector, and it is returned with
  similarity \<^verbatim>\<open>NaN\<close>.
\<close>

theorem zero_vector_counterexample:
  "magnitude [0, 0] = Fin 0
   \<and> similarities ex_zero_cache ''cur.md'' [1, 0] = [\<lparr> path = ''zero.md'', similarity = NaN \<rparr>]"
  by (simp add: magnitude_def similarities_def candidates_def ex_zero_cache_def ex_entry_def
        score_def cosineSimilarity_def dotProduct_def at_index_def upt_rec)


section \<open>Embedding cache: the claims\<close>

lemma updateNoteEmbedding_distinct:
  "distinct (map path (cache st)) \<Longrightarrow>
   distinct (map path (cache (snd (updateNoteEmbedding env st file))))"
  using updateNoteEmbedding_shape [of env st "file"] by (auto simp: distinct_upsert)

lemma updateAllEmbeddings_distinct:
  "distinct (map path (cache st)) \<Longrightarrow> distinct (map path (cache (updateAllEmbeddings env st)))"
  by (simp add: updateAllEmbeddings_def loop_distinct)

lemma rebuildCache_distinct: "distinct (map path (cache (snd (rebuildCache env st))))"
  by (simp add: rebuildCache_def Let_def updateAllEmbeddings_distinct split: sum.splits)

lemma run_op_distinct:
  "distinct (map path (cache st)) \<Longrightarrow> distinct (map path (cache (run_op st op)))"
  by (cases op)
    (simp_all add: updateNoteEmbedding_distinct updateAllEmbeddings_distinct rebuildCache_distinct)

text \<open>
  Claim C4.  A cache with at most one entry per path keeps that property through every
  sequence of cache operations: single updates, indexing of all notes, rebuilds, with
  notes written and deleted in between, whatever the providers answer.  The default
  settings start with an empty cache, so every state the plugin reaches from them has at
  most one entry per path.
  (The states inside one indexing run are covered by \<open>loop_distinct\<close>, which holds for
  every list of files, hence for every prefix of the run; a run interleaved with other
  operations acts on the cache as a sequence of single updates.)
\<close>

theorem cache_one_entry_per_path:
  "distinct (map path (cache st)) \<Longrightarrow> distinct (map path (cache (foldl run_op st ops)))"
  by (induction ops arbitrary: st) (simp_all add: run_op_distinct)

lemma ex_fresh_cache: "cache (ex_fresh v) = []" "cache (ex_fresh_ollama v) = []"
  by (simp_all add: ex_fresh_def ex_fresh_ollama_def cache_def DEFAULT_SETTINGS_def)

lemma ex_session_paths:
  "map path (cache (foldl run_op (ex_fresh_ollama ex_vault) ex_session)) = [''a.md'', ''c.md'']"
  by (simp add: ex_session_def updateNoteEmbedding_def rebuildCache_def updateAllEmbeddings_def
        process_file_def saveSettings_def vault_read_def ex_fresh_ollama_def ex_vault_def
        ex_note_def getEmbedding_def getOllamaEmbedding_def ex_ollama_def ex_offline_def
        DEFAULT_SETTINGS_def trim_def is_space_def cache_def set_embeddings_def upsert_def
        Let_def Notice_def vault_modify_def)

text \<open>From the default settings, through a session that embeds the same note twice.\<close>

theorem cache_one_entry_per_path_witness:
  "distinct (map path (cache (foldl run_op (ex_fresh_ollama ex_vault) ex_session)))
   \<and> map path (cache (foldl run_op (ex_fresh_ollama ex_vault) ex_session)) = [''a.md'', ''c.md'']"
proof
  show "distinct (map path (cache (foldl run_op (ex_fresh_ollama ex_vault) ex_session)))"
    by (rule cache_one_entry_per_path) (simp add: ex_fresh_cache)
  show "map path (cache (foldl run_op (ex_fresh_ollama ex_vault) ex_session)) = [''a.md'', ''c.md'']"
    by (rule ex_session_paths)
qed

text \<open>
  Claim C5.  After the cache write for path \<open>p\<close> with vector \<open>v\<close> and time \<open>t\<close>, the
  lookup \<^verbatim>\<open>find(e => e.path === p)\<close> returns exactly the entry \<open>(p, v, t)\<close>; a second
  write for \<open>p\<close> leaves the cache as if the first had not happened; and this write is
  what \<^verbatim>\<open>updateNoteEmbedding\<close> does to the cache when the note was read and embedded.
\<close>

theorem upsert_round_trip:
  "find (\<lambda>e. path e = p) (upsert es p v t) = Some \<lparr> path = p, embedding = v, lastModified = t \<rparr>
   \<and> upsert (upsert es p v1 t1) p v2 t2 = upsert es p v2 t2
   \<and> (embed_outcome env st file = Inr v \<longrightarrow>
        cache (snd (updateNoteEmbedding env st file)) = upsert (cache st) (path file) v (mtime file))"
  by (simp add: find_upsert_same upsert_upsert updateNoteEmbedding_embedded)

lemma ex_outcome_alpha:
  "embed_outcome ex_ollama (ex_fresh_ollama ex_vault) (ex_note ''a.md'' t) = Inr [1, 0]"
  by (simp add: embed_outcome_def vault_read_def ex_fresh_ollama_def ex_vault_def ex_note_def
        getEmbedding_def getOllamaEmbedding_def ex_ollama_def ex_offline_def DEFAULT_SETTINGS_def
        trim_def is_space_def)

text \<open>A note embedded into the empty cache, then looked up.\<close>

theorem upsert_round_trip_witness:
  "find (\<lambda>e. path e = ''a.md'')
     (cache (snd (updateNoteEmbedding ex_ollama (ex_fresh_ollama ex_vault) (ex_note ''a.md'' 1))))
     = Some \<lparr> path = ''a.md'', embedding = [1, 0], lastModified = 1 \<rparr>"
proof -
  note rt = upsert_round_trip [of "''a.md''" "[]" "[1, 0]" 1 "[]" 0 "[]" 0 ex_ollama
      "ex_fresh_ollama ex_vault" "ex_note ''a.md'' 1"]
  from rt ex_outcome_alpha [of 1]
  have "cache (snd (updateNoteEmbedding ex_ollama (ex_fresh_ollama ex_vault) (ex_note ''a.md'' 1)))
          = upsert [] ''a.md'' [1, 0] 1"
    by (simp add: ex_fresh_cache ex_note_def)
  with rt show ?thesis by simp
qed

text \<open>
  Claim C10.  Whatever \<^verbatim>\<open>updateNoteEmbedding\<close> does for a note with path \<open>p\<close>, the
  cache entries with another path are the same afterwards, in the same order.
\<close>

theorem upsert_frame:
  "filter (\<lambda>e. path e \<noteq> path file) (cache (snd (updateNoteEmbedding env st file)))
     = filter (\<lambda>e. path e \<noteq> path file) (cache st)"
  using updateNoteEmbedding_shape [of env st "file"] by (auto simp: filter_upsert)

text \<open>The second of four cached notes is embedded again.\<close>

theorem upsert_frame_witness:
  "filter (\<lambda>e. path e \<noteq> ''a.md'')
     (cache (snd (updateNoteEmbedding ex_ollama
                    (set_embeddings ex_ranked_cache (ex_fresh_ollama ex_vault)) (ex_note ''a.md'' 9))))
   = [ex_entry ''b.md'' [1, 0], ex_entry ''cur.md'' [1, 0], ex_entry ''z.md'' [0, 1]]"
  using upsert_frame [of "ex_note ''a.md'' 9" ex_ollama
      "set_embeddings ex_ranked_cache (ex_fresh_ollama ex_vault)"]
  by (simp add: ex_note_def ex_ranked_cache_def ex_entry_def)


section \<open>Indexing all notes: the claim\<close>

lemma embed_outcome_Notice: "embed_outcome env (Notice m st) file = embed_outcome env st file"
  by (cases "vault st (path file)") (simp_all add: embed_outcome_def vault_read_def)


lemma ex_three_files:
  "getMarkdownFiles ex_three = [ex_note ''a.md'' 1, ex_note ''b.md'' 2, ex_note ''c.md'' 3]"
  by (simp add: ex_three_def)

lemma ex_three_outcomes:
  "embed_outcome ex_three (ex_fresh_ollama ex_vault) (ex_note ''b.md'' 2) = Inl (FetchError ''Failed to fetch'')"
  "embed_outcome ex_three (ex_fresh_ollama ex_vault) (ex_note ''c.md'' 3) = Inr [1, 0]"
  by (simp_all add: embed_outcome_def vault_read_def ex_fresh_ollama_def ex_vault_def ex_note_def
        getEmbedding_def getOllamaEmbedding_def ex_three_def ex_ollama_def ex_offline_def
        DEFAULT_SETTINGS_def trim_def is_space_def)



section \<open>AI gateway: the claims\<close>




text \<open>
  Claim C8, as the code has it.  A completion requested from \<^verbatim>\<open>callOpenAI\<close> while the
  API key is empty shows the notice about the missing key, sends nothing to the provider
  and returns the text \<^verbatim>\<open>Error: API key not found.\<close> to its caller as the completion;
  so does \<^verbatim>\<open>callAI\<close> when the provider is \<^verbatim>\<open>openai\<close>.
\<close>

theorem missing_key_returns_text:
  assumes "openaiApiKey (settings st) = []"
  shows "callOpenAI env st inputText prompt =
           (Inr ''Error: API key not found.'',
            Notice (cross_mark @ '' Error: OpenAI API key is missing! Enter it in settings.'') st)
       \<and> (aiProvider (settings st) = ''openai'' \<longrightarrow>
            callAI env st inputText prompt = callOpenAI env st inputText prompt)"
  using assms by (simp add: callOpenAI_def callAI_def)

text \<open>The default settings have no key.\<close>

theorem missing_key_returns_text_witness:
  "callAI ex_offline (ex_fresh ex_vault) ''alpha'' ''Summarize this note in 3 bullet points'' =
     (Inr ''Error: API key not found.'',
      (ex_fresh ex_vault)\<lparr> notices :=
         [cross_mark @ '' Error: OpenAI API key is missing! Enter it in settings.''] \<rparr>)"
proof -
  have k: "openaiApiKey (settings (ex_fresh ex_vault)) = []"
    and p: "aiProvider (settings (ex_fresh ex_vault)) = ''openai''"
    by (simp_all add: ex_fresh_def DEFAULT_SETTINGS_def)
  from missing_key_returns_text [OF k, of ex_offline "''alpha''" "''Summarize this note in 3 bullet points''"] p
  show ?thesis by (simp add: Notice_def ex_fresh_def)
qed

text \<open>
  Claim C8 as stated fails: with the default settings the completion call returns a text,
  and \<^verbatim>\<open>summarizeNote\<close> goes on, appends that text to the note as its summary and
  announces success.
\<close>

theorem missing_key_counterexample:
  "fst (callAI ex_chat_env (ex_fresh ex_vault) ''alpha'' ''Summarize this note in 3 bullet points'')
     = Inr ''Error: API key not found.''
   \<and> vault (summarizeNote ex_chat_env (ex_fresh ex_vault)) ''a.md''
       = Some (''alpha'' @ nl @ nl @ ''---'' @ nl @ ''**AI Summary:**'' @ nl @ ''Error: API key not found.'')
   \<and> last (notices (summarizeNote ex_chat_env (ex_fresh ex_vault)))
       = check_mark @ '' Summary added to the note!''"
  by (simp add: summarizeNote_def callAI_def callOpenAI_def ex_chat_env_def ex_offline_def
        ex_fresh_def ex_vault_def ex_note_def DEFAULT_SETTINGS_def vault_read_def vault_modify_def
        Notice_def Let_def)


section \<open>Chat view: the claim\<close>

text \<open>When the completion succeeds, no note content stays in the history.\<close>

lemma handleUserInput_success_clean:
  assumes "getActiveFile env = Some activeFile" and "vault st (path activeFile) = Some noteContent"
    and "fst (callAIWithHistory env st
           (chatHistory view @ [\<lparr> role = User, content = input \<rparr>,
              \<lparr> role = System, content = ''Current note content:'' @ nl @ noteContent \<rparr>])) = Inr response"
  shows "\<forall>msg\<in>set (chatHistory (fst (handleUserInput env (view, st) input))). \<not> is_note_context msg"
  using assms
  by (auto simp: handleUserInput_def vault_read_def push_history_def addChatMessage_def
        is_note_context_def Let_def split: prod.splits sum.splits)

text \<open>
  Claim C7 fails on the code.  When the active note is read and the completion call then
  throws, \<^verbatim>\<open>handleUserInput\<close> returns with the system message that carries the note
  content still at the end of the permanent history: the filter that removes it stands
  inside the \<^verbatim>\<open>try\<close>, after the call.
\<close>

theorem failed_turn_keeps_note_content:
  assumes "getActiveFile env = Some activeFile" and "vault st (path activeFile) = Some noteContent"
    and "fst (callAIWithHistory env st
           (chatHistory view @ [\<lparr> role = User, content = input \<rparr>,
              \<lparr> role = System, content = ''Current note content:'' @ nl @ noteContent \<rparr>])) = Inl e"
  shows "chatHistory (fst (handleUserInput env (view, st) input)) =
           chatHistory view @ [\<lparr> role = User, content = input \<rparr>,
              \<lparr> role = System, content = ''Current note content:'' @ nl @ noteContent \<rparr>]
       \<and> is_note_context (last (chatHistory (fst (handleUserInput env (view, st) input))))"
  using assms
  by (auto simp: handleUserInput_def vault_read_def push_history_def addChatMessage_def
        is_note_context_def Let_def split: prod.splits sum.splits)

text \<open>The first turn of a chat on the note \<^verbatim>\<open>a.md\<close> while Ollama cannot be reached.\<close>

theorem failed_turn_keeps_note_content_witness:
  "chatHistory (fst (handleUserInput ex_chat_env
       (\<lparr> chatHistory = initial_history, chatContainer = [] \<rparr>, ex_fresh_ollama ex_vault) ''hi'')) =
     initial_history @ [\<lparr> role = User, content = ''hi'' \<rparr>,
        \<lparr> role = System, content = ''Current note content:'' @ nl @ ''alpha'' \<rparr>]"
proof -
  have a: "getActiveFile ex_chat_env = Some (ex_note ''a.md'' 1)"
    by (simp add: ex_chat_env_def)
  have v: "vault (ex_fresh_ollama ex_vault) (path (ex_note ''a.md'' 1)) = Some ''alpha''"
    by (simp add: ex_fresh_ollama_def ex_vault_def ex_note_def)
  have f: "fst (callAIWithHistory ex_chat_env (ex_fresh_ollama ex_vault)
           (chatHistory \<lparr> chatHistory = initial_history, chatContainer = [] \<rparr>
              @ [\<lparr> role = User, content = ''hi'' \<rparr>,
                 \<lparr> role = System, content = ''Current note content:'' @ nl @ ''alpha'' \<rparr>]))
         = Inl (FetchError ''Failed to fetch'')"
    by (simp add: callAIWithHistory_def callOllama_def ex_chat_env_def ex_offline_def
          ex_fresh_ollama_def DEFAULT_SETTINGS_def)
  from failed_turn_keeps_note_content [OF a v f] show ?thesis by simp
qed

end
